theory Spec2Isabelle
  imports Complex_Main
begin

section \<open>Data model (src/types: Action, WeeklyGoal, AppState)\<close>

text \<open>
  The numbers of the state (experience, level, streak, discomfort, identifiers, goal
  counters) are whole numbers held in JavaScript doubles, modelled as \<open>int\<close>; sums and
  products go through \<open>roundDouble\<close> below, which rounds as the double arithmetic does.
  The progress bar, which divides, is computed in \<open>real\<close>.  Field names carry a prefix
  where two interfaces of the source share a name (\<open>title\<close>).
\<close>

record Action =
  action_id :: int
  action_title :: string
  action_discomfort :: int
  action_feeling :: string
  action_date :: string
  action_xp :: int

record WeeklyGoal =
  goal_title :: string
  goal_description :: string
  goal_deadline :: string
  goal_progress :: int
  goal_target :: int

text \<open>\<open>Partial<WeeklyGoal>\<close>: every key may be absent.\<close>

record PartialGoal =
  tg_title :: "string option"
  tg_description :: "string option"
  tg_deadline :: "string option"
  tg_progress :: "int option"
  tg_target :: "int option"

text \<open>The in-progress draft \<open>newAction\<close> of \<open>AppState\<close>.\<close>

record NewAction =
  draft_title :: string
  draft_discomfort :: int
  draft_feeling :: string

datatype view = Selection | Login | Mentor | Coachee

datatype tab = Dashboard | Add | Review

datatype connection = Connecting | Connected | Error | Saving

record AppState =
  xp :: int
  level :: int
  streak :: int
  actions :: "Action list"
  weeklyGoal :: WeeklyGoal
  currentView :: view
  activeTab :: tab
  pinInput :: string
  pinError :: bool
  newAction :: NewAction
  isEditingGoal :: bool
  tempGoal :: PartialGoal
  connectionStatus :: connection
  showConfetti :: bool

text \<open>
  \<open>Partial<AppState>\<close>, also the shape of an untyped document read back from the store
  (\<open>docSnap.data()\<close>, \<open>JSON.parse(localData)\<close>): any key of \<open>AppState\<close> may be
  present or absent.
\<close>

record PartialState =
  p_xp :: "int option"
  p_level :: "int option"
  p_streak :: "int option"
  p_actions :: "Action list option"
  p_weeklyGoal :: "WeeklyGoal option"
  p_currentView :: "view option"
  p_activeTab :: "tab option"
  p_pinInput :: "string option"
  p_pinError :: "bool option"
  p_newAction :: "NewAction option"
  p_isEditingGoal :: "bool option"
  p_tempGoal :: "PartialGoal option"
  p_connectionStatus :: "connection option"
  p_showConfetti :: "bool option"

text \<open>The object literal \<open>dataToSave\<close> of \<open>saveToCloud\<close>: the five persisted keys.\<close>

record PersistedState =
  d_xp :: int
  d_level :: int
  d_streak :: int
  d_actions :: "Action list"
  d_weeklyGoal :: WeeklyGoal

section \<open>JavaScript numbers\<close>

text \<open>
  A sum or product of doubles is the exact result rounded to the nearest double, ties to
  the even significand.  On whole numbers: below \<open>2^53\<close> nothing is lost; from there
  on the 53 leading bits are kept and the rest is rounded away.
\<close>

function bitLength :: "nat \<Rightarrow> nat" where
  "bitLength n = (if n = 0 then 0 else Suc (bitLength (n div 2)))"
  by pat_completeness auto
termination
  by (relation "measure id") auto

declare bitLength.simps [simp del]

definition roundDouble :: "int \<Rightarrow> int" where
  "roundDouble n =
     (let a = nat \<bar>n\<bar>
      in if a < 9007199254740992 then n
         else
           (let e = bitLength a - 53;
                q = a div 2 ^ e;
                r = a mod 2 ^ e;
                q' = (if 2 ^ e < 2 * r then q + 1
                      else if 2 * r = 2 ^ e then (if odd q then q + 1 else q)
                      else q)
            in sgn n * int (q' * 2 ^ e)))"

text \<open>\<open>Number.isSafeInteger\<close>: the whole numbers on which double arithmetic is exact.\<close>

definition isSafeInteger :: "int \<Rightarrow> bool" where
  "isSafeInteger n = (\<bar>n\<bar> \<le> 9007199254740991)"

text \<open>
  \<open>parseInt(x.toString())\<close> on a whole number \<open>x\<close>.  Below \<open>10^21\<close> in magnitude
  \<open>toString\<close> writes plain decimal digits that read back as \<open>x\<close>.  From \<open>10^21\<close> on
  it writes exponent notation, \<open>d.ddd...e+n\<close>, with the fewest digits that still denote
  \<open>x\<close> (the digit string nearest to \<open>x\<close> among those, the even one on a tie), and
  \<open>parseInt\<close> stops at the first character that is not a digit: it returns the leading
  digit, with the sign of \<open>x\<close>.
\<close>

function numDigits :: "nat \<Rightarrow> nat" where
  "numDigits n = (if n < 10 then 1 else Suc (numDigits (n div 10)))"
  by pat_completeness auto
termination
  by (relation "measure id") auto

declare numDigits.simps [simp del]

definition roundTrips :: "nat \<Rightarrow> nat \<Rightarrow> nat \<Rightarrow> bool" where
  "roundTrips x s p = (roundDouble (int (s * 10 ^ p)) = int x)"

text \<open>\<open>x\<close> has \<open>n\<close> decimal digits; the list holds the digit counts still to be tried,
  shortest first.\<close>

fun shortestLeadingDigit :: "nat \<Rightarrow> nat \<Rightarrow> nat list \<Rightarrow> nat" where
  "shortestLeadingDigit x n [] = x div 10 ^ (n - 1)"
| "shortestLeadingDigit x n (k # ks) =
     (let p = n - k;
          s0 = x div 10 ^ p;
          s1 = s0 + 1;
          v0 = roundTrips x s0 p;
          v1 = roundTrips x s1 p;
          s = (if v0 \<and> v1 then
                 (if x - s0 * 10 ^ p < s1 * 10 ^ p - x then s0
                  else if s1 * 10 ^ p - x < x - s0 * 10 ^ p then s1
                  else if even s0 then s0 else s1)
               else if v0 then s0 else s1)
      in if v0 \<or> v1 then (if s = 10 ^ k then 1 else s div 10 ^ (k - 1))
         else shortestLeadingDigit x n ks)"

definition parseIntOfToString :: "int \<Rightarrow> int" where
  "parseIntOfToString d =
     (let a = nat \<bar>d\<bar>
      in if a < 1000000000000000000000 then d
         else sgn d * int (shortestLeadingDigit a (numDigits a) [1..<18]))"

section \<open>Constants and helpers\<close>

text \<open>
  \<open>levelThresholds\<close>, in the order \<open>Object.entries\<close> enumerates it (integer-like keys
  ascending).
\<close>

definition levelThresholds :: "(int \<times> int) list" where
  "levelThresholds = [(1, 0), (2, 500), (3, 1000), (4, 2000), (5, 3500)]"

text \<open>
  The level loop of \<open>submitAction\<close>:
  \<^verbatim>\<open>let nextLevel = 1;
  for (const [lvl, threshold] of Object.entries(levelThresholds)) {
      if (newXp >= threshold) nextLevel = parseInt(lvl);
  }\<close>
\<close>

definition levelLoopBody :: "int \<Rightarrow> int \<Rightarrow> (int \<times> int) \<Rightarrow> int" where
  "levelLoopBody newXp nextLvl entry =
     (if newXp \<ge> snd entry then fst entry else nextLvl)"

definition nextLevel :: "int \<Rightarrow> int" where
  "nextLevel newXp = foldl (levelLoopBody newXp) 1 levelThresholds"

text \<open>
  The specification's wording of the same function, kept apart from the loop: the highest
  level of the table whose threshold is at most the experience.
\<close>

definition reachedLevels :: "int \<Rightarrow> int list" where
  "reachedLevels x = map fst (filter (\<lambda>entry. snd entry \<le> x) levelThresholds)"

definition highestReachedLevel :: "int \<Rightarrow> int" where
  "highestReachedLevel x = Max (set (reachedLevels x))"





text \<open>\<open>defaultState\<close>; the two accented letters of the goal description are written as
  their UTF-8 bytes.\<close>

definition defaultState :: AppState where
  "defaultState =
     \<lparr> xp = 0, level = 1, streak = 0, actions = [],
       weeklyGoal = \<lparr> goal_title = ''En attente du Mentor...'',
                      goal_description =
                        ''L'objectif de la semaine sera d'' @ [CHR 0xC3, CHR 0xA9]
                        @ ''fini bient'' @ [CHR 0xC3, CHR 0xB4] @ ''t ici.'',
                      goal_deadline = ''Dimanche'', goal_progress = 0, goal_target = 1 \<rparr>,
       currentView = Selection, activeTab = Dashboard, pinInput = [], pinError = False,
       newAction = \<lparr> draft_title = [], draft_discomfort = 5, draft_feeling = ''neutral'' \<rparr>,
       isEditingGoal = False,
       tempGoal = \<lparr> tg_title = None, tg_description = None, tg_deadline = None,
                    tg_progress = None, tg_target = None \<rparr>,
       connectionStatus = Connecting, showConfetti = False \<rparr>"

section \<open>Object spread\<close>

text \<open>
  \<open>{ ...a, ...b }\<close>: every key present in \<open>b\<close> overwrites the key of \<open>a\<close>, every
  other key keeps the value of \<open>a\<close>.
\<close>

definition orElse :: "'a option \<Rightarrow> 'a \<Rightarrow> 'a" where
  "orElse v d = (case v of None \<Rightarrow> d | Some y \<Rightarrow> y)"

definition spreadGoal :: "WeeklyGoal \<Rightarrow> PartialGoal \<Rightarrow> WeeklyGoal" where
  "spreadGoal g t =
     \<lparr> goal_title = orElse (tg_title t) (goal_title g),
       goal_description = orElse (tg_description t) (goal_description g),
       goal_deadline = orElse (tg_deadline t) (goal_deadline g),
       goal_progress = orElse (tg_progress t) (goal_progress g),
       goal_target = orElse (tg_target t) (goal_target g) \<rparr>"

definition spreadState :: "AppState \<Rightarrow> PartialState \<Rightarrow> AppState" where
  "spreadState s p =
     \<lparr> xp = orElse (p_xp p) (xp s),
       level = orElse (p_level p) (level s),
       streak = orElse (p_streak p) (streak s),
       actions = orElse (p_actions p) (actions s),
       weeklyGoal = orElse (p_weeklyGoal p) (weeklyGoal s),
       currentView = orElse (p_currentView p) (currentView s),
       activeTab = orElse (p_activeTab p) (activeTab s),
       pinInput = orElse (p_pinInput p) (pinInput s),
       pinError = orElse (p_pinError p) (pinError s),
       newAction = orElse (p_newAction p) (newAction s),
       isEditingGoal = orElse (p_isEditingGoal p) (isEditingGoal s),
       tempGoal = orElse (p_tempGoal p) (tempGoal s),
       connectionStatus = orElse (p_connectionStatus p) (connectionStatus s),
       showConfetti = orElse (p_showConfetti p) (showConfetti s) \<rparr>"

text \<open>A whole goal or state seen as a partial one (\<open>{ ...prev.weeklyGoal }\<close>, \<open>newState\<close>
  passed as \<open>stateOverride\<close>), and the empty object \<open>{}\<close>.\<close>

definition wholeGoal :: "WeeklyGoal \<Rightarrow> PartialGoal" where
  "wholeGoal g =
     \<lparr> tg_title = Some (goal_title g), tg_description = Some (goal_description g),
       tg_deadline = Some (goal_deadline g), tg_progress = Some (goal_progress g),
       tg_target = Some (goal_target g) \<rparr>"

definition emptyGoal :: PartialGoal where
  "emptyGoal =
     \<lparr> tg_title = None, tg_description = None, tg_deadline = None,
       tg_progress = None, tg_target = None \<rparr>"

definition wholeState :: "AppState \<Rightarrow> PartialState" where
  "wholeState s =
     \<lparr> p_xp = Some (xp s), p_level = Some (level s), p_streak = Some (streak s),
       p_actions = Some (actions s), p_weeklyGoal = Some (weeklyGoal s),
       p_currentView = Some (currentView s), p_activeTab = Some (activeTab s),
       p_pinInput = Some (pinInput s), p_pinError = Some (pinError s),
       p_newAction = Some (newAction s), p_isEditingGoal = Some (isEditingGoal s),
       p_tempGoal = Some (tempGoal s), p_connectionStatus = Some (connectionStatus s),
       p_showConfetti = Some (showConfetti s) \<rparr>"

text \<open>A stored document that carries the five persisted keys and nothing else: what
  \<open>setDoc(docRef, dataToSave, { merge: true })\<close> and
  \<open>localStorage.setItem(..., JSON.stringify(dataToSave))\<close> write.\<close>

definition documentOf :: "PersistedState \<Rightarrow> PartialState" where
  "documentOf d =
     \<lparr> p_xp = Some (d_xp d), p_level = Some (d_level d), p_streak = Some (d_streak d),
       p_actions = Some (d_actions d), p_weeklyGoal = Some (d_weeklyGoal d),
       p_currentView = None, p_activeTab = None, p_pinInput = None, p_pinError = None,
       p_newAction = None, p_isEditingGoal = None, p_tempGoal = None,
       p_connectionStatus = None, p_showConfetti = None \<rparr>"

section \<open>Loading: the snapshot merge\<close>

text \<open>
  The updater passed to \<open>setState\<close> by the \<open>onSnapshot\<close> handler, and identically by the
  localStorage fallback:
  \<^verbatim>\<open>prev => ({ ...prev, ...remoteData,
             currentView: prev.currentView, activeTab: prev.activeTab,
             connectionStatus: 'connected' })\<close>
\<close>

definition mergeRemote :: "PartialState \<Rightarrow> AppState \<Rightarrow> AppState" where
  "mergeRemote remoteData prev =
     (spreadState prev remoteData)
       \<lparr> currentView := currentView prev,
         activeTab := activeTab prev,
         connectionStatus := Connected \<rparr>"

section \<open>Saving: \<open>saveToCloud\<close> and its timers\<close>

text \<open>
  What \<open>saveToCloud\<close> reads and writes outside its arguments: the React state (always
  through functional updates \<open>setState(prev => ...)\<close>), the timer handle
  \<open>saveTimeoutRef\<close>, the timers of the runtime, and the store (the Firestore document,
  or the localStorage item of the fallback).

  \<open>setTimeout\<close> hands out a fresh positive handle and adds a timer to the runtime's
  list; \<open>clearTimeout\<close> removes the timer with the given handle, if it is still there.
  A timer is recorded with its handle, the time at which it is due, the \<open>dataToSave\<close>
  its callback closed over, and which of the two callbacks it is.  \<open>saveTimeoutRef\<close>
  holds the handle of the timer armed last (\<open>null\<close> before the first); the source never
  resets it.  \<open>attempts\<close> logs every call of \<open>setDoc\<close> or \<open>localStorage.setItem\<close>,
  newest first; \<open>storage\<close> is what the store holds.  Time is in milliseconds.
\<close>

record timer =
  tid :: nat
  due :: nat
  payload :: PersistedState
  remote :: bool

record world =
  state :: AppState
  saveTimeoutRef :: "nat option"
  pending :: "timer list"
  nextTimerId :: nat
  storage :: "PersistedState option"
  attempts :: "PersistedState list"
  clock :: nat

definition setStatus :: "connection \<Rightarrow> world \<Rightarrow> world" where
  "setStatus c w = w\<lparr> state := (state w)\<lparr> connectionStatus := c \<rparr> \<rparr>"

text \<open>One call of \<open>setDoc\<close> or \<open>setItem\<close>; \<open>ok\<close> tells whether the store accepts it
  (otherwise the promise rejects, or \<open>setItem\<close> throws).\<close>

definition writeStore :: "bool \<Rightarrow> PersistedState \<Rightarrow> world \<Rightarrow> world" where
  "writeStore ok d w =
     w\<lparr> attempts := d # attempts w, storage := (if ok then Some d else storage w) \<rparr>"

text \<open>\<open>const currentState = stateOverride ? { ...state, ...stateOverride } : state\<close>\<close>

definition currentState :: "AppState \<Rightarrow> PartialState option \<Rightarrow> AppState" where
  "currentState st stateOverride =
     (case stateOverride of None \<Rightarrow> st | Some ov \<Rightarrow> spreadState st ov)"

definition dataToSave :: "AppState \<Rightarrow> PersistedState" where
  "dataToSave cur =
     \<lparr> d_xp = xp cur, d_level = level cur, d_streak = streak cur,
       d_actions = actions cur, d_weeklyGoal = weeklyGoal cur \<rparr>"

text \<open>
  The fallback's \<open>doSave\<close>: \<open>setItem\<close>, then \<open>connectionStatus: 'connected'\<close>.  Nothing
  catches a throwing \<open>setItem\<close>, so the status update is skipped then.
\<close>

definition doSave :: "bool \<Rightarrow> PersistedState \<Rightarrow> world \<Rightarrow> world" where
  "doSave ok d w =
     (let w' = writeStore ok d w in if ok then setStatus Connected w' else w')"

text \<open>
  The callback given to \<open>setTimeout\<close> on the Firestore path:
  \<open>async () => { await setDoc(...); setState(... 'connected') }\<close>.  It runs after
  \<open>saveToCloud\<close> has returned, outside its \<open>try\<close>: a rejected \<open>setDoc\<close> ends the
  callback and reaches no handler.
\<close>

definition remoteTimerCallback :: "bool \<Rightarrow> PersistedState \<Rightarrow> world \<Rightarrow> world" where
  "remoteTimerCallback ok d w =
     (let w' = writeStore ok d w in if ok then setStatus Connected w' else w')"

text \<open>\<open>if (saveTimeoutRef.current) clearTimeout(saveTimeoutRef.current)\<close>\<close>

definition clearTimeout :: "nat \<Rightarrow> world \<Rightarrow> world" where
  "clearTimeout i w = w\<lparr> pending := filter (\<lambda>t. tid t \<noteq> i) (pending w) \<rparr>"

definition clearSaveTimeout :: "world \<Rightarrow> world" where
  "clearSaveTimeout w =
     (case saveTimeoutRef w of None \<Rightarrow> w | Some i \<Rightarrow> clearTimeout i w)"

text \<open>\<open>saveTimeoutRef.current = setTimeout(callback, 1000)\<close>\<close>

definition setSaveTimeout :: "bool \<Rightarrow> PersistedState \<Rightarrow> world \<Rightarrow> world" where
  "setSaveTimeout isRemote d w =
     w\<lparr> pending := pending w @
            [\<lparr> tid = nextTimerId w, due = clock w + 1000, payload = d, remote = isRemote \<rparr>],
        saveTimeoutRef := Some (nextTimerId w),
        nextTimerId := Suc (nextTimerId w) \<rparr>"

text \<open>
  \<open>saveToCloud(force, stateOverride)\<close>.  \<open>fb\<close> is \<open>auth && db\<close> (Firestore configured);
  \<open>st\<close> is the \<open>state\<close> of the render whose closure is running; \<open>ok\<close> is the outcome of
  the write when the call is forced.  The awaited \<open>setDoc\<close> of the forced Firestore path
  is taken to settle before the next event.
\<close>

definition saveToCloud ::
  "bool \<Rightarrow> AppState \<Rightarrow> bool \<Rightarrow> PartialState option \<Rightarrow> bool \<Rightarrow> world \<Rightarrow> world" where
  "saveToCloud fb st force stateOverride ok w =
     (let cur = currentState st stateOverride;
          w1 = setStatus Saving w;
          d = dataToSave cur
      in if \<not> fb then
           (let w2 = clearSaveTimeout w1
            in if force then doSave ok d w2
               else setSaveTimeout False d w2)
         else
           (let w2 = clearSaveTimeout w1
            in if force then
                 (let w3 = writeStore ok d w2
                  in if ok then setStatus Connected w3 else setStatus Error w3)
               else setSaveTimeout True d w2))"

text \<open>A timer fires: its callback runs with the data it closed over.\<close>

definition fireTimer :: "bool \<Rightarrow> timer \<Rightarrow> world \<Rightarrow> world" where
  "fireTimer ok t w =
     (if remote t then remoteTimerCallback ok (payload t) w
      else doSave ok (payload t) w)"

fun fireAll :: "bool \<Rightarrow> timer list \<Rightarrow> world \<Rightarrow> world" where
  "fireAll ok [] w = w"
| "fireAll ok (t # ts) w = fireAll ok ts (fireTimer ok t w)"

text \<open>\<open>dt\<close> milliseconds pass; every timer that has become due leaves the list and
  fires, in the order of arming (\<open>ok\<close>: outcome of the writes).\<close>

definition elapse :: "nat \<Rightarrow> bool \<Rightarrow> world \<Rightarrow> world" where
  "elapse dt ok w =
     (let w1 = w\<lparr> clock := clock w + dt \<rparr>;
          dueNow = filter (\<lambda>t. due t \<le> clock w1) (pending w1);
          w2 = w1\<lparr> pending := filter (\<lambda>t. clock w1 < due t) (pending w1) \<rparr>
      in fireAll ok dueNow w2)"

text \<open>
  The timers of a world are tracked when at most one is pending and \<open>saveTimeoutRef\<close>
  holds its handle.  The initial world is such, and every event keeps it so.
\<close>

definition tracked :: "world \<Rightarrow> bool" where
  "tracked w =
     (case pending w of
        [] \<Rightarrow> True
      | t # ts \<Rightarrow> ts = [] \<and> saveTimeoutRef w = Some (tid t))"

section \<open>Handlers\<close>

definition setView :: "view \<Rightarrow> AppState \<Rightarrow> AppState" where
  "setView v prev = prev\<lparr> currentView := v \<rparr>"

definition setTab :: "tab \<Rightarrow> AppState \<Rightarrow> AppState" where
  "setTab t prev = prev\<lparr> activeTab := t \<rparr>"

text \<open>\<open>handlePin\<close>; the reset that follows a wrong code 500 ms later is \<open>pinTimeout\<close>.\<close>

definition handlePin :: "string \<Rightarrow> AppState \<Rightarrow> AppState" where
  "handlePin num s =
     (if length (pinInput s) < 4 then
        (let newVal = pinInput s @ num;
             s1 = s\<lparr> pinInput := newVal \<rparr>
         in if length newVal = 4 then
              (if newVal = ''1234'' then s1\<lparr> currentView := Mentor, pinInput := [] \<rparr>
               else s1\<lparr> pinError := True \<rparr>)
            else s1)
      else s)"

definition pinTimeout :: "AppState \<Rightarrow> AppState" where
  "pinTimeout prev = prev\<lparr> pinInput := [], pinError := False \<rparr>"

definition clearPin :: "AppState \<Rightarrow> AppState" where
  "clearPin prev = prev\<lparr> pinInput := [], pinError := False \<rparr>"

definition toggleEditGoal :: "AppState \<Rightarrow> AppState" where
  "toggleEditGoal prev =
     (let isEditing = \<not> isEditingGoal prev
      in prev\<lparr> isEditingGoal := isEditing,
               tempGoal := (if isEditing then wholeGoal (weeklyGoal prev) else emptyGoal) \<rparr>)"

text \<open>\<open>updateTempGoal(field, value)\<close>: one constructor for each key of \<open>WeeklyGoal\<close>.\<close>

datatype goal_field =
    Title string | Description string | Deadline string | Progress int | Target int

fun setGoalField :: "goal_field \<Rightarrow> PartialGoal \<Rightarrow> PartialGoal" where
  "setGoalField (Title v) t = t\<lparr> tg_title := Some v \<rparr>"
| "setGoalField (Description v) t = t\<lparr> tg_description := Some v \<rparr>"
| "setGoalField (Deadline v) t = t\<lparr> tg_deadline := Some v \<rparr>"
| "setGoalField (Progress v) t = t\<lparr> tg_progress := Some v \<rparr>"
| "setGoalField (Target v) t = t\<lparr> tg_target := Some v \<rparr>"

definition updateTempGoal :: "goal_field \<Rightarrow> AppState \<Rightarrow> AppState" where
  "updateTempGoal f prev = prev\<lparr> tempGoal := setGoalField f (tempGoal prev) \<rparr>"

text \<open>\<open>saveGoal\<close>: the state it builds, and the whole handler
  (\<open>setState(newState); saveToCloud(true, newState)\<close>).\<close>

definition saveGoalState :: "AppState \<Rightarrow> AppState" where
  "saveGoalState s =
     (let newGoal = spreadGoal (weeklyGoal s) (tempGoal s)
      in s\<lparr> weeklyGoal := newGoal, isEditingGoal := False \<rparr>)"

definition saveGoal :: "bool \<Rightarrow> bool \<Rightarrow> world \<Rightarrow> world" where
  "saveGoal fb ok w =
     (let newState = saveGoalState (state w)
      in saveToCloud fb (state w) True (Some (wholeState newState)) ok
           (w\<lparr> state := newState \<rparr>))"

text \<open>\<open>updateNewAction(field, value)\<close>.  The slider hands the discomfort over as the
  decimal string of a whole number, which reads as that number; the model keeps the
  number.\<close>

datatype draft_field = DraftTitle string | DraftDiscomfort int | DraftFeeling string

fun setDraftField :: "draft_field \<Rightarrow> NewAction \<Rightarrow> NewAction" where
  "setDraftField (DraftTitle v) n = n\<lparr> draft_title := v \<rparr>"
| "setDraftField (DraftDiscomfort v) n = n\<lparr> draft_discomfort := v \<rparr>"
| "setDraftField (DraftFeeling v) n = n\<lparr> draft_feeling := v \<rparr>"

definition updateNewAction :: "draft_field \<Rightarrow> AppState \<Rightarrow> AppState" where
  "updateNewAction f prev = prev\<lparr> newAction := setDraftField f (newAction prev) \<rparr>"

text \<open>
  \<open>submitAction\<close>.  \<open>now\<close> is the value of \<open>Date.now()\<close> and \<open>today\<close> the value of
  \<open>new Date().toISOString().split('T')[0]\<close> at the call.  The discomfort is read with
  \<open>parseInt(state.newAction.discomfort.toString())\<close>, and the product and the two sums
  are those of doubles.
\<close>

definition totalPoints :: "AppState \<Rightarrow> int" where
  "totalPoints s =
     (let discomfortPoints =
            roundDouble (parseIntOfToString (draft_discomfort (newAction s)) * 10);
          basePoints = 50
      in roundDouble (basePoints + discomfortPoints))"

definition newEntry :: "int \<Rightarrow> string \<Rightarrow> AppState \<Rightarrow> Action" where
  "newEntry now today s =
     \<lparr> action_id = now,
       action_title = draft_title (newAction s),
       action_discomfort = parseIntOfToString (draft_discomfort (newAction s)),
       action_feeling = draft_feeling (newAction s),
       action_date = today,
       action_xp = totalPoints s \<rparr>"

definition submitActionState :: "int \<Rightarrow> string \<Rightarrow> AppState \<Rightarrow> AppState" where
  "submitActionState now today s =
     (let newActions = newEntry now today s # actions s;
          newXp = roundDouble (xp s + totalPoints s)
      in s\<lparr> actions := newActions,
            xp := newXp,
            level := nextLevel newXp,
            newAction := \<lparr> draft_title = [], draft_discomfort = 5, draft_feeling = ''neutral'' \<rparr>,
            activeTab := Dashboard,
            showConfetti := True \<rparr>)"

definition submitAction :: "bool \<Rightarrow> int \<Rightarrow> string \<Rightarrow> bool \<Rightarrow> world \<Rightarrow> world" where
  "submitAction fb now today ok w =
     (let newState = submitActionState now today (state w)
      in saveToCloud fb (state w) True (Some (wholeState newState)) ok
           (w\<lparr> state := newState \<rparr>))"

definition confettiTimeout :: "AppState \<Rightarrow> AppState" where
  "confettiTimeout prev = prev\<lparr> showConfetti := False \<rparr>"

definition logout :: "AppState \<Rightarrow> AppState" where
  "logout prev = prev\<lparr> currentView := Selection, pinInput := [] \<rparr>"

section \<open>The component as a transition system\<close>

text \<open>
  Everything that can happen to the mounted component.  Each handler runs on the state of
  the latest render.  \<open>Snapshot\<close> is a delivery of the Firestore subscription (\<open>None\<close>:
  the document does not exist, and the handler, created by the first render, saves the
  state of that render); \<open>LoadLocal\<close> is the fallback's read of localStorage at mount;
  \<open>SyncError\<close> is the subscription's error callback or a failed sign-in.
\<close>

datatype local_item = Missing | Unparsable | Parsed PartialState

datatype event =
    SetView view
  | SetTab tab
  | HandlePin string
  | PinTimeout
  | ClearPin
  | ToggleEditGoal
  | UpdateTempGoal goal_field
  | SaveGoal bool
  | UpdateNewAction draft_field
  | SubmitAction int string bool
  | ConfettiTimeout
  | Logout
  | Elapse nat bool
  | Snapshot "PartialState option" bool
  | LoadLocal local_item
  | SyncError

definition onState :: "(AppState \<Rightarrow> AppState) \<Rightarrow> world \<Rightarrow> world" where
  "onState f w = w\<lparr> state := f (state w) \<rparr>"

fun step :: "bool \<Rightarrow> event \<Rightarrow> world \<Rightarrow> world" where
  "step fb (SetView v) w = onState (setView v) w"
| "step fb (SetTab t) w = onState (setTab t) w"
| "step fb (HandlePin num) w = onState (handlePin num) w"
| "step fb PinTimeout w = onState pinTimeout w"
| "step fb ClearPin w = onState clearPin w"
| "step fb ToggleEditGoal w = onState toggleEditGoal w"
| "step fb (UpdateTempGoal f) w = onState (updateTempGoal f) w"
| "step fb (SaveGoal ok) w = saveGoal fb ok w"
| "step fb (UpdateNewAction f) w = onState (updateNewAction f) w"
| "step fb (SubmitAction now today ok) w = submitAction fb now today ok w"
| "step fb ConfettiTimeout w = onState confettiTimeout w"
| "step fb Logout w = onState logout w"
| "step fb (Elapse dt ok) w = elapse dt ok w"
| "step fb (Snapshot (Some remoteData) ok) w = onState (mergeRemote remoteData) w"
| "step fb (Snapshot None ok) w = saveToCloud fb defaultState True None ok w"
| "step fb (LoadLocal Missing) w = setStatus Connected w"
| "step fb (LoadLocal Unparsable) w = w"
| "step fb (LoadLocal (Parsed localData)) w = onState (mergeRemote localData) w"
| "step fb SyncError w = setStatus Error w"

fun run :: "bool \<Rightarrow> event list \<Rightarrow> world \<Rightarrow> world" where
  "run fb [] w = w"
| "run fb (e # es) w = run fb es (step fb e w)"

text \<open>The events that read the store into the state, as opposed to the handlers and
  timers of the component itself.\<close>

fun loads :: "event \<Rightarrow> bool" where
  "loads (Snapshot r ok) = True"
| "loads (LoadLocal i) = True"
| "loads e = False"

text \<open>The entries created along a run, newest first.\<close>

fun created :: "event \<Rightarrow> AppState \<Rightarrow> Action list" where
  "created (SubmitAction now today ok) s = [newEntry now today s]"
| "created e s = []"

fun recorded :: "bool \<Rightarrow> event list \<Rightarrow> world \<Rightarrow> Action list" where
  "recorded fb [] w = []"
| "recorded fb (e # es) w = recorded fb es (step fb e w) @ created e (state w)"

definition initialWorld :: world where
  "initialWorld =
     \<lparr> state = defaultState, saveTimeoutRef = None, pending = [], nextTimerId = 1,
       storage = None, attempts = [], clock = 0 \<rparr>"

section \<open>Leveling\<close>

lemma nextLevel_cases:
  "nextLevel x =
     (if 3500 \<le> x then 5 else if 2000 \<le> x then 4 else if 1000 \<le> x then 3
      else if 500 \<le> x then 2 else 1)"
  by (simp add: nextLevel_def levelThresholds_def levelLoopBody_def)

lemma highestReachedLevel_cases:
  "0 \<le> x \<Longrightarrow> highestReachedLevel x =
     (if 3500 \<le> x then 5 else if 2000 \<le> x then 4 else if 1000 \<le> x then 3
      else if 500 \<le> x then 2 else 1)"
  by (simp add: highestReachedLevel_def reachedLevels_def levelThresholds_def)

lemma nextLevel_mono: "a \<le> b \<Longrightarrow> nextLevel a \<le> nextLevel b"
  by (simp add: nextLevel_cases)

text \<open>
  C5. For every non-negative experience \<open>x\<close> the level computed by the loop is the
  highest level of the threshold table whose threshold is at most \<open>x\<close> (a threshold
  reached exactly grants its level); the levels at 0, 499, 500 and 3500 are 1, 1, 2 and 5;
  and the level never decreases when the experience grows.
\<close>

theorem nextLevel_highest_threshold:
  "(0 \<le> x \<longrightarrow> nextLevel x = highestReachedLevel x)
   \<and> nextLevel 0 = 1 \<and> nextLevel 499 = 1 \<and> nextLevel 500 = 2 \<and> nextLevel 3500 = 5
   \<and> (a \<le> b \<longrightarrow> nextLevel a \<le> nextLevel b)"
proof -
  have "0 \<le> x \<longrightarrow> nextLevel x = highestReachedLevel x"
    by (simp add: nextLevel_cases highestReachedLevel_cases)
  moreover have "nextLevel 0 = 1" "nextLevel 499 = 1" "nextLevel 500 = 2" "nextLevel 3500 = 5"
    by (simp_all add: nextLevel_cases)
  moreover have "a \<le> b \<longrightarrow> nextLevel a \<le> nextLevel b"
    using nextLevel_mono by blast
  ultimately show ?thesis by blast
qed

theorem nextLevel_highest_threshold_witness:
  "(0::int) \<le> 1234 \<and> nextLevel 1234 = highestReachedLevel 1234
   \<and> (499::int) \<le> 500 \<and> nextLevel 499 \<le> nextLevel 500"
  using nextLevel_highest_threshold [of 1234 499 500] by simp

section \<open>The progress bar\<close>












section \<open>Whole numbers in double arithmetic\<close>

lemma roundDouble_exact:
  assumes "\<bar>n\<bar> < 9007199254740992"
  shows "roundDouble n = n"
proof -
  have "nat \<bar>n\<bar> < 9007199254740992"
    using assms by linarith
  then show ?thesis
    unfolding roundDouble_def Let_def by (simp only: if_True)
qed

lemma roundDouble_safe: "isSafeInteger n \<Longrightarrow> roundDouble n = n"
  by (simp add: isSafeInteger_def roundDouble_exact)

lemma parseIntOfToString_plain:
  assumes "\<bar>d\<bar> < 1000000000000000000000"
  shows "parseIntOfToString d = d"
proof -
  have "nat \<bar>d\<bar> < 1000000000000000000000"
    using assms by linarith
  then show ?thesis
    unfolding parseIntOfToString_def Let_def by (simp only: if_True)
qed

text \<open>Beyond those ranges the arithmetic rounds, and \<open>parseInt\<close> reads the leading
  digit of the exponent notation.\<close>

lemma roundDouble_rounds_example:
  "roundDouble (1152921504606846976 + 100) = 1152921504606846976"
  by (simp add: roundDouble_def Let_def bitLength.simps)

lemma roundDouble_1e21: "roundDouble 1000000000000000000000 = 1000000000000000000000"
  by (simp add: roundDouble_def Let_def bitLength.simps)

lemma parseIntOfToString_exponent_example:
  "parseIntOfToString 1000000000000000000000 = 1"
proof -
  have a: "nat \<bar>1000000000000000000000::int\<bar> = 1000000000000000000000"
    by simp
  have n: "numDigits 1000000000000000000000 = 22"
    by (simp add: numDigits.simps)
  have ks: "[1..<18] = 1 # [2..<18]"
    by (simp add: upt_conv_Cons)
  have "shortestLeadingDigit 1000000000000000000000 22 (1 # [2..<18]) = 1"
    by (simp add: Let_def roundTrips_def roundDouble_1e21 del: upt.simps upt_Suc)
  then have sl: "shortestLeadingDigit 1000000000000000000000
                   (numDigits 1000000000000000000000) [1..<18] = 1"
    by (simp only: n ks)
  show ?thesis
    unfolding parseIntOfToString_def Let_def a sl by simp
qed

section \<open>Object spread and the state seen by \<open>saveToCloud\<close>\<close>

lemma orElse_simps: "orElse None d = d" "orElse (Some v) d = v"
  by (simp_all add: orElse_def)



lemma onState_state: "state (onState f w) = f (state w)"
  by (simp add: onState_def)

lemma clearSaveTimeout_frame:
  "state (clearSaveTimeout w) = state w"
  "attempts (clearSaveTimeout w) = attempts w"
  "storage (clearSaveTimeout w) = storage w"
  "clock (clearSaveTimeout w) = clock w"
  "saveTimeoutRef (clearSaveTimeout w) = saveTimeoutRef w"
  "nextTimerId (clearSaveTimeout w) = nextTimerId w"
  by (simp_all add: clearSaveTimeout_def clearTimeout_def split: option.splits)

text \<open>\<open>saveToCloud\<close> touches nothing of the React state but the connection status.\<close>

lemma saveToCloud_state:
  "state (saveToCloud fb st force ov ok w) =
     (state w)\<lparr> connectionStatus :=
        (if force then (if ok then Connected else if fb then Error else Saving) else Saving) \<rparr>"
  by (simp add: saveToCloud_def Let_def doSave_def writeStore_def setStatus_def
        setSaveTimeout_def clearSaveTimeout_frame)

lemma fireTimer_frame:
  "state (fireTimer ok t w) = (state w)\<lparr> connectionStatus :=
      (if ok then Connected else connectionStatus (state w)) \<rparr>"
  "pending (fireTimer ok t w) = pending w"
  "saveTimeoutRef (fireTimer ok t w) = saveTimeoutRef w"
  "attempts (fireTimer ok t w) = payload t # attempts w"
  "storage (fireTimer ok t w) = (if ok then Some (payload t) else storage w)"
  by (simp_all add: fireTimer_def doSave_def remoteTimerCallback_def writeStore_def
        setStatus_def Let_def)

lemma fireAll_frame:
  "state (fireAll ok ts w) = (state w)\<lparr> connectionStatus :=
      (if ok \<and> ts \<noteq> [] then Connected else connectionStatus (state w)) \<rparr>"
  "pending (fireAll ok ts w) = pending w"
  "saveTimeoutRef (fireAll ok ts w) = saveTimeoutRef w"
  by (induction ts arbitrary: w; simp add: fireTimer_frame)+

lemma elapse_frame:
  "pending (elapse dt ok w) = filter (\<lambda>t. clock w + dt < due t) (pending w)"
  "saveTimeoutRef (elapse dt ok w) = saveTimeoutRef w"
  by (simp_all add: elapse_def Let_def fireAll_frame)

lemma elapse_state_frame:
  "(state (elapse dt ok w))\<lparr> connectionStatus := c \<rparr> = (state w)\<lparr> connectionStatus := c \<rparr>"
  by (simp add: elapse_def Let_def fireAll_frame)

lemma submitAction_state:
  "state (submitAction fb now today ok w) =
     (submitActionState now today (state w))\<lparr> connectionStatus :=
        (if ok then Connected else if fb then Error else Saving) \<rparr>"
  by (simp add: submitAction_def Let_def saveToCloud_state)

lemma saveGoal_state:
  "state (saveGoal fb ok w) =
     (saveGoalState (state w))\<lparr> connectionStatus :=
        (if ok then Connected else if fb then Error else Saving) \<rparr>"
  by (simp add: saveGoal_def Let_def saveToCloud_state)

section \<open>The snapshot merge\<close>

lemma mergeRemote_document:
  "mergeRemote (documentOf d) prev =
     prev\<lparr> xp := d_xp d, level := d_level d, streak := d_streak d, actions := d_actions d,
           weeklyGoal := d_weeklyGoal d, connectionStatus := Connected \<rparr>"
  by (simp add: mergeRemote_def spreadState_def documentOf_def orElse_simps)

text \<open>
  C1, as the code has it.  The level held after the \<open>onSnapshot\<close> handler has merged a
  remote document is the \<open>level\<close> field of that document, taken as it is (the previous
  level when the document has none), and the experience is the document's \<open>xp\<close> field
  likewise: the merge recomputes nothing.  The merged level is the level of the merged
  experience when the document was saved from a state built by \<open>submitAction\<close>, whose
  level and experience agree.
\<close>

theorem snapshot_level_taken_from_document:
  "level (state (step fb (Snapshot (Some remoteData) ok) w))
     = orElse (p_level remoteData) (level (state w))
   \<and> xp (state (step fb (Snapshot (Some remoteData) ok) w))
     = orElse (p_xp remoteData) (xp (state w))
   \<and> level (state (step fb
        (Snapshot (Some (documentOf (dataToSave (submitActionState now today s)))) ok) w))
     = nextLevel (xp (state (step fb
        (Snapshot (Some (documentOf (dataToSave (submitActionState now today s)))) ok) w)))"
  by (simp add: onState_state mergeRemote_def spreadState_def documentOf_def dataToSave_def
        orElse_simps submitActionState_def Let_def)

text \<open>
  The claim as the specification words it fails: a document with experience 600 and
  level 1 leaves level 1 in memory, while the level of experience 600 is 2.
\<close>

theorem snapshot_level_counterexample:
  "level (state (step True (Snapshot (Some (documentOf
      \<lparr> d_xp = 600, d_level = 1, d_streak = 0, d_actions = [],
        d_weeklyGoal = weeklyGoal defaultState \<rparr>)) True) initialWorld))
   \<noteq> nextLevel (xp (state (step True (Snapshot (Some (documentOf
      \<lparr> d_xp = 600, d_level = 1, d_streak = 0, d_actions = [],
        d_weeklyGoal = weeklyGoal defaultState \<rparr>)) True) initialWorld)))"
  by (simp add: onState_state mergeRemote_document nextLevel_cases)

text \<open>
  C2, as the code has it.  Both merges (the \<open>onSnapshot\<close> handler and the localStorage
  fallback) apply the same update.  For a stored document that carries the five persisted
  fields, the merge sets those five fields to the document's values, sets
  \<open>connectionStatus\<close> to \<open>connected\<close>, and leaves every other UI-only field
  (\<open>currentView\<close>, \<open>activeTab\<close>, \<open>pinInput\<close>, \<open>pinError\<close>, \<open>newAction\<close>,
  \<open>isEditingGoal\<close>, \<open>tempGoal\<close>, \<open>showConfetti\<close>) as it was; \<open>currentView\<close> and
  \<open>activeTab\<close> are kept whatever the document contains.
\<close>

theorem snapshot_merge_frame:
  "state (step fb (Snapshot (Some remoteData) ok) w) = mergeRemote remoteData (state w)
   \<and> state (step fb (LoadLocal (Parsed remoteData)) w) = mergeRemote remoteData (state w)
   \<and> currentView (mergeRemote remoteData prev) = currentView prev
   \<and> activeTab (mergeRemote remoteData prev) = activeTab prev
   \<and> pinInput (mergeRemote (documentOf d) prev) = pinInput prev
   \<and> pinError (mergeRemote (documentOf d) prev) = pinError prev
   \<and> newAction (mergeRemote (documentOf d) prev) = newAction prev
   \<and> isEditingGoal (mergeRemote (documentOf d) prev) = isEditingGoal prev
   \<and> tempGoal (mergeRemote (documentOf d) prev) = tempGoal prev
   \<and> showConfetti (mergeRemote (documentOf d) prev) = showConfetti prev
   \<and> connectionStatus (mergeRemote (documentOf d) prev) = Connected
   \<and> xp (mergeRemote (documentOf d) prev) = d_xp d
   \<and> level (mergeRemote (documentOf d) prev) = d_level d
   \<and> streak (mergeRemote (documentOf d) prev) = d_streak d
   \<and> actions (mergeRemote (documentOf d) prev) = d_actions d
   \<and> weeklyGoal (mergeRemote (documentOf d) prev) = d_weeklyGoal d"
proof -
  have "currentView (mergeRemote remoteData prev) = currentView prev"
    and "activeTab (mergeRemote remoteData prev) = activeTab prev"
    by (simp_all add: mergeRemote_def)
  then show ?thesis
    by (simp add: onState_state mergeRemote_document)
qed

text \<open>
  The claim as the specification words it fails on \<open>connectionStatus\<close>, which it lists
  among the fields left identical: the first snapshot received in the default state turns
  \<open>connecting\<close> into \<open>connected\<close>.
\<close>

theorem snapshot_merge_status_counterexample:
  "connectionStatus (state (step True
      (Snapshot (Some (documentOf (dataToSave defaultState))) True) initialWorld))
   \<noteq> connectionStatus (state initialWorld)"
  by (simp add: onState_state mergeRemote_document initialWorld_def defaultState_def)

section \<open>Debounced and immediate writes\<close>


lemma clearSaveTimeout_tracked:
  assumes "tracked w"
  shows "pending (clearSaveTimeout (setStatus c w)) = []"
  using assms
  by (auto simp add: tracked_def clearSaveTimeout_def clearTimeout_def setStatus_def
        split: list.splits option.splits)

text \<open>From a tracked world, a debounced call leaves exactly the timer it arms.\<close>

lemma saveToCloud_debounced:
  assumes "tracked w"
  shows "pending (saveToCloud fb st False ov ok w) =
           [\<lparr> tid = nextTimerId w, due = clock w + 1000,
              payload = dataToSave (currentState st ov), remote = fb \<rparr>]"
    and "saveTimeoutRef (saveToCloud fb st False ov ok w) = Some (nextTimerId w)"
    and "attempts (saveToCloud fb st False ov ok w) = attempts w"
    and "storage (saveToCloud fb st False ov ok w) = storage w"
    and "clock (saveToCloud fb st False ov ok w) = clock w"
  using clearSaveTimeout_tracked [OF assms, of Saving]
  by (simp_all add: saveToCloud_def Let_def setSaveTimeout_def clearSaveTimeout_frame
        setStatus_def)

lemma saveToCloud_forced_pending:
  assumes "tracked w"
  shows "pending (saveToCloud fb st True ov ok w) = []"
  using clearSaveTimeout_tracked [OF assms, of Saving]
  by (simp add: saveToCloud_def Let_def doSave_def writeStore_def setStatus_def)

lemma tracked_saveToCloud:
  assumes "tracked w"
  shows "tracked (saveToCloud fb st force ov ok w)"
proof (cases force)
  case True
  then show ?thesis
    using saveToCloud_forced_pending [OF assms] by (simp add: tracked_def)
next
  case False
  then show ?thesis
    using saveToCloud_debounced(1,2) [OF assms] by (simp add: tracked_def)
qed

lemma tracked_elapse:
  assumes "tracked w"
  shows "tracked (elapse dt ok w)"
  using assms
  by (auto simp add: tracked_def elapse_frame split: list.splits if_splits)

lemma tracked_onState: "tracked (onState f w) = tracked w"
  by (simp add: tracked_def onState_def split: list.splits)

lemma tracked_setStatus: "tracked (setStatus c w) = tracked w"
  by (simp add: tracked_def setStatus_def split: list.splits)

lemma tracked_state_update: "tracked (w\<lparr> state := s \<rparr>) = tracked w"
  by (simp add: tracked_def split: list.splits)

text \<open>Every world the component reaches has its timers tracked.\<close>

lemma tracked_step:
  assumes "tracked w"
  shows "tracked (step fb e w)"
proof (cases e)
  case (Snapshot r ok)
  then show ?thesis
    using assms by (cases r) (simp_all add: tracked_onState tracked_saveToCloud)
next
  case (LoadLocal i)
  then show ?thesis
    using assms by (cases i) (simp_all add: tracked_onState tracked_setStatus)
qed (simp_all add: assms tracked_onState tracked_setStatus tracked_elapse tracked_saveToCloud
       tracked_state_update saveGoal_def submitAction_def Let_def)

lemma tracked_run:
  assumes "tracked w"
  shows "tracked (run fb es w)"
  using assms by (induction es arbitrary: w) (simp_all add: tracked_step)




text \<open>
  What does hold of C4 on every path.  A write that succeeds, immediate or debounced, to
  Firestore or to localStorage, sets \<open>connectionStatus\<close> to \<open>connected\<close>; \<open>error\<close> is
  not final, since a later successful write or a delivered snapshot sets \<open>connected\<close>;
  and a failing write changes no field of the in-memory state other than
  \<open>connectionStatus\<close>.
\<close>

lemma successful_write_connects:
  "connectionStatus (state (saveToCloud fb st True ov True w)) = Connected
   \<and> connectionStatus (state (elapse (1000 + k) True (saveToCloud fb st False ov ok w)))
       = Connected
   \<and> connectionStatus (state (saveToCloud fb st True ov True (setStatus Error w))) = Connected
   \<and> connectionStatus (state (step fb (Snapshot (Some remoteData) ok) (setStatus Error w)))
       = Connected
   \<and> (state (saveToCloud fb st True ov False w))\<lparr> connectionStatus := c \<rparr>
       = (state w)\<lparr> connectionStatus := c \<rparr>
   \<and> (state (elapse (1000 + k) False (saveToCloud fb st False ov ok w)))\<lparr> connectionStatus := c \<rparr>
       = (state w)\<lparr> connectionStatus := c \<rparr>"
proof -
  have "filter (\<lambda>t. due t \<le> clock w + (1000 + k))
          (pending (saveToCloud fb st False ov ok w)) \<noteq> []"
    by (simp add: saveToCloud_def Let_def setSaveTimeout_def clearSaveTimeout_frame
          setStatus_def)
  moreover have "clock (saveToCloud fb st False ov ok w) = clock w"
    by (simp add: saveToCloud_def Let_def setSaveTimeout_def clearSaveTimeout_frame
          setStatus_def)
  ultimately
  have "connectionStatus (state (elapse (1000 + k) True (saveToCloud fb st False ov ok w)))
          = Connected"
    by (simp add: elapse_def Let_def fireAll_frame)
  moreover have "connectionStatus (state (step fb (Snapshot (Some remoteData) ok) (setStatus Error w)))
          = Connected"
    by (simp add: onState_state mergeRemote_def)
  moreover have "(state (elapse (1000 + k) False (saveToCloud fb st False ov ok w)))
          \<lparr> connectionStatus := c \<rparr> = (state w)\<lparr> connectionStatus := c \<rparr>"
    by (simp add: elapse_state_frame saveToCloud_state)
  ultimately show ?thesis
    by (simp add: saveToCloud_state)
qed

text \<open>
  C4.  The claim asks that every failing write set \<open>connectionStatus\<close> to \<open>error\<close>.
  The forced Firestore write does so, in its \<open>catch\<close>.  The three other paths do not:
  the fallback branch returns before the \<open>try\<close>, so a throwing
  \<open>localStorage.setItem\<close> is caught nowhere, and the timer callbacks run after the
  \<open>try\<close> has been left, so a rejected \<open>setDoc\<close> is caught nowhere either.  On all
  three the status stays at \<open>saving\<close>: in fallback mode, \<open>saveGoal\<close> with a failing
  write leaves \<open>saving\<close>.
\<close>

theorem failed_write_leaves_saving:
  "connectionStatus (state (step False (SaveGoal False) initialWorld)) = Saving
   \<and> connectionStatus (state (saveToCloud True st True ov False w)) = Error
   \<and> connectionStatus (state (saveToCloud False st True ov False w)) = Saving
   \<and> connectionStatus (state (elapse (1000 + k) False (saveToCloud True st False ov ok w)))
       = Saving
   \<and> connectionStatus (state (elapse (1000 + k) False (saveToCloud False st False ov ok w)))
       = Saving"
  by (simp add: saveGoal_state saveToCloud_state elapse_def Let_def fireAll_frame)

section \<open>The action ledger\<close>

text \<open>
  C6. Wherever the arithmetic stays within the safe integers (ten times the draft's
  discomfort \<open>d\<close>, the award and the new experience), the entry that \<open>submitAction\<close>
  records carries the discomfort \<open>d\<close> and \<open>50 + d * 10\<close> points; it is the first entry
  of the new list; the new experience is the previous experience plus those points; and
  the new level is the level of the new experience.  Discomfort 5, 10 and 1 give 100, 150
  and 60 points, and from experience 450 an action of discomfort 8 gives experience 580
  and level 2.
\<close>

theorem submitAction_award:
  assumes "isSafeInteger (draft_discomfort (newAction (state w)) * 10)"
    and "isSafeInteger (50 + draft_discomfort (newAction (state w)) * 10)"
    and "isSafeInteger (xp (state w) + (50 + draft_discomfort (newAction (state w)) * 10))"
  shows "action_discomfort (newEntry now today (state w)) = draft_discomfort (newAction (state w))
   \<and> action_xp (newEntry now today (state w))
       = 50 + action_discomfort (newEntry now today (state w)) * 10
   \<and> hd (actions (state (step fb (SubmitAction now today ok) w))) = newEntry now today (state w)
   \<and> xp (state (step fb (SubmitAction now today ok) w))
       = xp (state w) + action_xp (newEntry now today (state w))
   \<and> level (state (step fb (SubmitAction now today ok) w))
       = nextLevel (xp (state (step fb (SubmitAction now today ok) w)))
   \<and> action_xp (newEntry now today (updateNewAction (DraftDiscomfort 5) s)) = 100
   \<and> action_xp (newEntry now today (updateNewAction (DraftDiscomfort 10) s)) = 150
   \<and> action_xp (newEntry now today (updateNewAction (DraftDiscomfort 1) s)) = 60
   \<and> xp (submitActionState now today (updateNewAction (DraftDiscomfort 8) (s\<lparr> xp := 450 \<rparr>)))
       = 580
   \<and> level (submitActionState now today (updateNewAction (DraftDiscomfort 8) (s\<lparr> xp := 450 \<rparr>)))
       = 2"
proof -
  let ?d = "draft_discomfort (newAction (state w))"
  have small: "\<bar>?d\<bar> < 1000000000000000000000"
    using assms(1) by (simp add: isSafeInteger_def)
  have parsed: "parseIntOfToString ?d = ?d"
    using small by (rule parseIntOfToString_plain)
  have points: "totalPoints (state w) = 50 + ?d * 10"
    by (simp add: totalPoints_def Let_def parsed roundDouble_safe [OF assms(1)]
          roundDouble_safe [OF assms(2)])
  have sum: "roundDouble (xp (state w) + (50 + ?d * 10)) = xp (state w) + (50 + ?d * 10)"
    by (rule roundDouble_safe [OF assms(3)])
  have general: "action_discomfort (newEntry now today (state w)) = ?d
      \<and> action_xp (newEntry now today (state w))
          = 50 + action_discomfort (newEntry now today (state w)) * 10
      \<and> hd (actions (state (step fb (SubmitAction now today ok) w)))
          = newEntry now today (state w)
      \<and> xp (state (step fb (SubmitAction now today ok) w))
          = xp (state w) + action_xp (newEntry now today (state w))
      \<and> level (state (step fb (SubmitAction now today ok) w))
          = nextLevel (xp (state (step fb (SubmitAction now today ok) w)))"
    by (simp add: submitAction_state submitActionState_def newEntry_def Let_def parsed points
          sum)
  have examples: "action_xp (newEntry now today (updateNewAction (DraftDiscomfort 5) s)) = 100
      \<and> action_xp (newEntry now today (updateNewAction (DraftDiscomfort 10) s)) = 150
      \<and> action_xp (newEntry now today (updateNewAction (DraftDiscomfort 1) s)) = 60"
    by (simp add: newEntry_def totalPoints_def updateNewAction_def Let_def
          roundDouble_exact parseIntOfToString_plain)
  have scenario:
    "xp (submitActionState now today (updateNewAction (DraftDiscomfort 8) (s\<lparr> xp := 450 \<rparr>)))
       = 580
     \<and> level (submitActionState now today
          (updateNewAction (DraftDiscomfort 8) (s\<lparr> xp := 450 \<rparr>))) = 2"
    by (simp add: submitActionState_def totalPoints_def updateNewAction_def Let_def
          roundDouble_exact parseIntOfToString_plain nextLevel_cases)
  from general examples scenario show ?thesis by blast
qed

theorem submitAction_award_witness:
  "isSafeInteger (draft_discomfort (newAction (state
      (run False [UpdateNewAction (DraftDiscomfort 8)] initialWorld))) * 10)
   \<and> isSafeInteger (50 + draft_discomfort (newAction (state
      (run False [UpdateNewAction (DraftDiscomfort 8)] initialWorld))) * 10)
   \<and> isSafeInteger (xp (state (run False [UpdateNewAction (DraftDiscomfort 8)] initialWorld))
        + (50 + draft_discomfort (newAction (state
             (run False [UpdateNewAction (DraftDiscomfort 8)] initialWorld))) * 10))
   \<and> xp (state (step False (SubmitAction 1000 ''2024-05-01'' True)
        (run False [UpdateNewAction (DraftDiscomfort 8)] initialWorld))) = 130
   \<and> action_xp (hd (actions (state (step False (SubmitAction 1000 ''2024-05-01'' True)
        (run False [UpdateNewAction (DraftDiscomfort 8)] initialWorld))))) = 130
   \<and> action_discomfort (hd (actions (state (step False (SubmitAction 1000 ''2024-05-01'' True)
        (run False [UpdateNewAction (DraftDiscomfort 8)] initialWorld))))) = 8"
proof -
  let ?w = "run False [UpdateNewAction (DraftDiscomfort 8)] initialWorld"
  have d: "draft_discomfort (newAction (state ?w)) = 8" and x: "xp (state ?w) = 0"
    by (simp_all add: onState_state updateNewAction_def initialWorld_def defaultState_def)
  have h1: "isSafeInteger (draft_discomfort (newAction (state ?w)) * 10)"
    and h2: "isSafeInteger (50 + draft_discomfort (newAction (state ?w)) * 10)"
    and h3: "isSafeInteger (xp (state ?w) + (50 + draft_discomfort (newAction (state ?w)) * 10))"
    unfolding d x by (simp_all add: isSafeInteger_def)
  from submitAction_award [OF h1 h2 h3, where now = 1000 and today = "''2024-05-01''"
      and fb = False and ok = True]
  have "action_discomfort (newEntry 1000 ''2024-05-01'' (state ?w)) = 8"
    and "action_xp (newEntry 1000 ''2024-05-01'' (state ?w)) = 130"
    and "hd (actions (state (step False (SubmitAction 1000 ''2024-05-01'' True) ?w)))
           = newEntry 1000 ''2024-05-01'' (state ?w)"
    and "xp (state (step False (SubmitAction 1000 ''2024-05-01'' True) ?w)) = 130"
    unfolding d x by simp_all
  with h1 h2 h3 show ?thesis by simp
qed

text \<open>
  Outside the safe integers the code does not add exactly: from experience \<open>2^60\<close> an
  award of 100 points leaves the experience at \<open>2^60\<close>, and a draft discomfort of
  \<open>10^21\<close> is recorded as discomfort 1 with 60 points.
\<close>

lemma submitAction_rounds_large_experience:
  "xp (submitActionState now today (updateNewAction (DraftDiscomfort 5)
         (s\<lparr> xp := 1152921504606846976 \<rparr>)))
   = 1152921504606846976"
  using roundDouble_rounds_example
  by (simp add: submitActionState_def totalPoints_def updateNewAction_def Let_def
        roundDouble_exact parseIntOfToString_plain)

lemma submitAction_reads_leading_digit:
  "action_discomfort (newEntry now today
      (updateNewAction (DraftDiscomfort 1000000000000000000000) s)) = 1
   \<and> action_xp (newEntry now today
      (updateNewAction (DraftDiscomfort 1000000000000000000000) s)) = 60"
  using parseIntOfToString_exponent_example
  by (simp add: newEntry_def totalPoints_def updateNewAction_def Let_def roundDouble_exact)

lemma elapse_actions: "actions (state (elapse dt ok w)) = actions (state w)"
proof -
  have "actions ((state (elapse dt ok w))\<lparr> connectionStatus := Saving \<rparr>)
        = actions ((state w)\<lparr> connectionStatus := Saving \<rparr>)"
    by (simp only: elapse_state_frame)
  then show ?thesis by simp
qed

lemma step_actions:
  assumes "\<not> loads e"
  shows "actions (state (step fb e w)) = created e (state w) @ actions (state w)"
proof (cases e)
  case (HandlePin num)
  then show ?thesis by (simp add: onState_state handlePin_def Let_def)
next
  case (SubmitAction now today ok)
  then show ?thesis by (simp add: submitAction_state submitActionState_def Let_def)
next
  case (SaveGoal ok)
  then show ?thesis by (simp add: saveGoal_state saveGoalState_def Let_def)
next
  case (Elapse dt ok)
  then show ?thesis by (simp add: elapse_actions)
next
  case (Snapshot r ok)
  with assms show ?thesis by simp
next
  case (LoadLocal i)
  with assms show ?thesis by simp
qed (simp_all add: onState_state setView_def setTab_def pinTimeout_def clearPin_def
       toggleEditGoal_def updateTempGoal_def updateNewAction_def confettiTimeout_def
       logout_def setStatus_def Let_def)

text \<open>
  C7. \<open>submitAction\<close> puts the entry it creates at index 0 and keeps the stored entries
  behind it, unchanged and in their order; and along any sequence of the component's own
  events (every handler and timer, in any order) the list is the entries created on the
  way, newest first, followed by the list as it was: no handler re-sorts, changes or
  removes a stored entry.  (A load from the store replaces the list by the stored one;
  that is the snapshot merge, not an operation on the ledger.)
\<close>

theorem actions_prepend_only:
  "actions (state (step fb (SubmitAction now today ok) w))
     = newEntry now today (state w) # actions (state w)
   \<and> ((\<forall>e\<in>set es. \<not> loads e) \<longrightarrow>
        actions (state (run fb es w)) = recorded fb es w @ actions (state w))"
proof -
  have "(\<forall>e\<in>set es. \<not> loads e) \<longrightarrow>
          actions (state (run fb es w)) = recorded fb es w @ actions (state w)"
  proof (induction es arbitrary: w)
    case Nil
    show ?case by simp
  next
    case (Cons e es)
    show ?case
    proof
      assume all: "\<forall>e'\<in>set (e # es). \<not> loads e'"
      then have "actions (state (run fb es (step fb e w)))
                   = recorded fb es (step fb e w) @ actions (state (step fb e w))"
        using Cons.IH by simp
      moreover have "actions (state (step fb e w)) = created e (state w) @ actions (state w)"
        using all by (simp add: step_actions)
      ultimately show "actions (state (run fb (e # es) w))
                         = recorded fb (e # es) w @ actions (state w)"
        by simp
    qed
  qed
  moreover have "actions (state (step fb (SubmitAction now today ok) w))
                   = newEntry now today (state w) # actions (state w)"
    using step_actions [of "SubmitAction now today ok" fb w] by simp
  ultimately show ?thesis by blast
qed

theorem actions_prepend_only_witness:
  "filter loads [UpdateNewAction (DraftDiscomfort 8), SubmitAction 1000 ''2024-05-01'' True,
                 SetTab Add, SubmitAction 2000 ''2024-05-02'' False] = []
   \<and> map action_id (actions (state (run False
        [UpdateNewAction (DraftDiscomfort 8), SubmitAction 1000 ''2024-05-01'' True,
         SetTab Add, SubmitAction 2000 ''2024-05-02'' False] initialWorld)))
     = [2000, 1000]
   \<and> map action_xp (actions (state (run False
        [UpdateNewAction (DraftDiscomfort 8), SubmitAction 1000 ''2024-05-01'' True,
         SetTab Add, SubmitAction 2000 ''2024-05-02'' False] initialWorld)))
     = [100, 130]"
proof -
  let ?es = "[UpdateNewAction (DraftDiscomfort 8), SubmitAction 1000 ''2024-05-01'' True,
              SetTab Add, SubmitAction 2000 ''2024-05-02'' False]"
  have h: "\<forall>e\<in>set ?es. \<not> loads e"
    by simp
  have r: "recorded False ?es initialWorld =
             [newEntry 2000 ''2024-05-02'' defaultState,
              newEntry 1000 ''2024-05-01'' (updateNewAction (DraftDiscomfort 8) defaultState)]"
    by (simp add: onState_state submitAction_state submitActionState_def Let_def
          initialWorld_def updateNewAction_def setTab_def newEntry_def totalPoints_def
          defaultState_def roundDouble_exact parseIntOfToString_plain)
  have "actions (state initialWorld) = []"
    by (simp add: initialWorld_def defaultState_def)
  with actions_prepend_only [of False 0 "[]" True initialWorld ?es] h r
  have "actions (state (run False ?es initialWorld)) =
          [newEntry 2000 ''2024-05-02'' defaultState,
           newEntry 1000 ''2024-05-01'' (updateNewAction (DraftDiscomfort 8) defaultState)]"
    by simp
  moreover have "filter loads ?es = []"
    by simp
  ultimately show ?thesis
    by (simp add: newEntry_def totalPoints_def updateNewAction_def defaultState_def
          roundDouble_exact parseIntOfToString_plain)
qed

text \<open>
  C9, as the code has it.  The identifier of a recorded action is the reading of
  \<open>Date.now()\<close> at its creation: the identifier of one action is smaller than that of
  another exactly when its clock reading is smaller.
\<close>

theorem action_id_is_clock_reading:
  "action_id (hd (actions (state (step fb (SubmitAction now today ok) w)))) = now
   \<and> (action_id (newEntry t1 day1 s1) < action_id (newEntry t2 day2 s2)) = (t1 < t2)"
  by (simp add: submitAction_state submitActionState_def Let_def newEntry_def)

text \<open>
  The claim as the specification words it fails: two actions recorded one after the other
  within the same millisecond carry the same identifier.
\<close>

theorem action_id_collision_counterexample:
  "map action_id (actions (state (run False
      [SubmitAction 1000 ''2024-05-01'' True, SubmitAction 1000 ''2024-05-01'' True]
      initialWorld)))
   = [1000, 1000]"
  by (simp add: submitAction_state submitActionState_def Let_def newEntry_def initialWorld_def
        defaultState_def)

section \<open>The goal editor\<close>

text \<open>
  C8. The goal that \<open>saveGoal\<close> commits is the current goal with exactly the fields
  present in the draft overwritten by the draft's values; every field absent from the
  draft keeps the current goal's value.  A draft holding only a title changes only the
  title.
\<close>

theorem saveGoal_overwrites_draft_fields:
  "weeklyGoal (state (step fb (SaveGoal ok) w))
     = spreadGoal (weeklyGoal (state w)) (tempGoal (state w))
   \<and> goal_title (spreadGoal cur draft)
       = (case tg_title draft of None \<Rightarrow> goal_title cur | Some v \<Rightarrow> v)
   \<and> goal_description (spreadGoal cur draft)
       = (case tg_description draft of None \<Rightarrow> goal_description cur | Some v \<Rightarrow> v)
   \<and> goal_deadline (spreadGoal cur draft)
       = (case tg_deadline draft of None \<Rightarrow> goal_deadline cur | Some v \<Rightarrow> v)
   \<and> goal_progress (spreadGoal cur draft)
       = (case tg_progress draft of None \<Rightarrow> goal_progress cur | Some v \<Rightarrow> v)
   \<and> goal_target (spreadGoal cur draft)
       = (case tg_target draft of None \<Rightarrow> goal_target cur | Some v \<Rightarrow> v)
   \<and> spreadGoal cur (setGoalField (Title X) emptyGoal) = cur\<lparr> goal_title := X \<rparr>"
  by (simp add: saveGoal_state saveGoalState_def Let_def spreadGoal_def orElse_def
        emptyGoal_def)

end
